theory Spec2Isabelle
  imports Main "HOL-Library.Word"
begin

unbundle bit_operations_syntax

section \<open>Values of the JavaScript runtime\<close>

type_synonym byte = "8 word"

text \<open>
  A parsed JSON value (what \<open>response.json()\<close> resolves to, and what \<open>JSON.stringify\<close>
  takes). Numbers are the integers; an object is its list of properties, keys distinct.
\<close>

datatype json = JNull | JBool bool | JNum int | JStr string
  | JArr "json list" | JObj "(string \<times> json) list"

text \<open>
  A thrown value. Every \<open>throw\<close> of the repository throws \<open>new Error(msg)\<close>; the runtime
  (\<open>fetch\<close>, \<open>new URL\<close>, \<open>response.json()\<close>, ethers) throws \<open>Error\<close> objects of other names
  (\<open>TypeError\<close>, \<open>SyntaxError\<close>), possibly with a \<open>cause\<close>. \<open>ErrorObj name message cause\<close> is
  such an object. Its \<open>cause\<close> is \<open>NoCause\<close> when the property is absent or falsy, and
  \<open>Cause m\<close> when it is a truthy value whose property \<open>message\<close> is \<open>m\<close>: \<open>None\<close> for a cause
  without message (a cause that is no \<open>Error\<close>). \<open>NonError s\<close> is a thrown value that is
  not an \<open>Error\<close>, with \<open>String(value) = s\<close>.
\<close>

datatype cause = NoCause | Cause "json option"

datatype thrown = ErrorObj string string cause | NonError string

definition new_Error :: "string \<Rightarrow> thrown" where
  "new_Error msg = ErrorObj ''Error'' msg NoCause"

text \<open>\<open>error instanceof Error ? error.message : String(error)\<close>\<close>

fun message_or_String :: "thrown \<Rightarrow> string" where
  "message_or_String (ErrorObj n m c) = m"
| "message_or_String (NonError s) = s"

text \<open>
  Property access \<open>v.k\<close>: a \<open>TypeError\<close> on \<open>null\<close>, the property of an object when it has
  one, \<open>undefined\<close> (here \<open>None\<close>) otherwise.
\<close>

fun get_prop :: "json \<Rightarrow> string \<Rightarrow> thrown + json option" where
  "get_prop JNull k =
     Inl (ErrorObj ''TypeError''
            (''Cannot read properties of null (reading '' @ [CHR 0x27] @ k @ [CHR 0x27] @ '')'') NoCause)"
| "get_prop (JObj fs) k = Inr (map_of fs k)"
| "get_prop v k = Inr None"

subsection \<open>Decimal rendering of numbers\<close>

definition digit_char :: "nat \<Rightarrow> char" where
  "digit_char d = char_of (48 + d)"

function show_nat :: "nat \<Rightarrow> string" where
  "show_nat n = (if n < 10 then [digit_char n] else show_nat (n div 10) @ [digit_char (n mod 10)])"
  by pat_completeness auto
termination
  by (relation "measure id") auto

declare show_nat.simps [simp del]

definition show_int :: "int \<Rightarrow> string" where
  "show_int i = (if i < 0 then CHR ''-'' # show_nat (nat (- i)) else show_nat (nat i))"

subsection \<open>String conversion and \<open>JSON.stringify\<close>\<close>

fun join :: "string \<Rightarrow> string list \<Rightarrow> string" where
  "join sep [] = []"
| "join sep [x] = x"
| "join sep (x # y # ys) = x @ sep @ join sep (y # ys)"

text \<open>
  \<open>String(v)\<close>, as a template literal applies it: an array joins its elements with commas,
  \<open>null\<close> elements rendering empty; an object is \<open>[object Object]\<close>.
\<close>

fun js_String :: "json \<Rightarrow> string" where
  "js_String JNull = ''null''"
| "js_String (JBool b) = (if b then ''true'' else ''false'')"
| "js_String (JNum i) = show_int i"
| "js_String (JStr s) = s"
| "js_String (JArr xs) = join '','' (map (\<lambda>x. if x = JNull then [] else js_String x) xs)"
| "js_String (JObj fs) = ''[object Object]''"

definition template_String :: "json option \<Rightarrow> string" where
  "template_String v = (case v of None \<Rightarrow> ''undefined'' | Some j \<Rightarrow> js_String j)"

definition hex_digit :: "nat \<Rightarrow> char" where
  "hex_digit d = (if d < 10 then char_of (48 + d) else char_of (87 + d))"

text \<open>
  The escapes of \<open>JSON.stringify\<close> on a string: the quote, the backslash, the short
  escapes of the control characters and \<open>\u00XX\<close> for the other characters below 0x20.
\<close>

definition escape_char :: "char \<Rightarrow> string" where
  "escape_char c =
     (if c = CHR 0x22 then [CHR 0x5C, CHR 0x22]
      else if c = CHR 0x5C then [CHR 0x5C, CHR 0x5C]
      else if c = CHR 0x08 then [CHR 0x5C, CHR ''b'']
      else if c = CHR 0x0C then [CHR 0x5C, CHR ''f'']
      else if c = CHR 0x0A then [CHR 0x5C, CHR ''n'']
      else if c = CHR 0x0D then [CHR 0x5C, CHR ''r'']
      else if c = CHR 0x09 then [CHR 0x5C, CHR ''t'']
      else if of_char c < (32::nat)
        then [CHR 0x5C, CHR ''u'', CHR ''0'', CHR ''0'',
              hex_digit (of_char c div 16), hex_digit (of_char c mod 16)]
      else [c])"

definition quote :: "string \<Rightarrow> string" where
  "quote s = [CHR 0x22] @ concat (map escape_char s) @ [CHR 0x22]"

fun stringify :: "json \<Rightarrow> string" where
  "stringify JNull = ''null''"
| "stringify (JBool b) = (if b then ''true'' else ''false'')"
| "stringify (JNum i) = show_int i"
| "stringify (JStr s) = quote s"
| "stringify (JArr xs) = ''['' @ join '','' (map stringify xs) @ '']''"
| "stringify (JObj fs) =
     ''{'' @ join '','' (map (\<lambda>(k, v). quote k @ '':'' @ stringify v) fs) @ ''}''"

text \<open>
  An object literal handed to \<open>JSON.stringify\<close>: a property whose value is \<open>undefined\<close>
  is left out.
\<close>

definition object_literal :: "(string \<times> json option) list \<Rightarrow> json" where
  "object_literal fs = JObj (concat (map (\<lambda>(k, v). case v of None \<Rightarrow> [] | Some j \<Rightarrow> [(k, j)]) fs))"


section \<open>The network\<close>

datatype form_value = FormText string | FormFile "byte list" string string

datatype req_body = NoBody | JsonBody string | FormBody "(string \<times> form_value) list"

text \<open>
  A request as \<open>fetch\<close> receives it: the \<open>href\<close> of the \<open>URL\<close> object, its
  \<open>searchParams\<close>, the headers and the body.
\<close>

record request =
  http_method :: string
  url :: string
  searchParams :: "(string \<times> string) list"
  headers :: "(string \<times> string) list"
  body :: req_body

text \<open>
  A response: status line, headers (names in lower case, as \<open>Headers.get\<close> looks them up)
  and the three readings of the body the code uses: \<open>text()\<close>, \<open>json()\<close> (which throws
  on a body that is not JSON) and \<open>arrayBuffer()\<close>.
\<close>

record response =
  status :: nat
  statusText :: string
  resp_headers :: "(string \<times> string) list"
  resp_text :: string
  resp_json :: "thrown + json"
  resp_arrayBuffer :: "byte list"

text \<open>\<open>response.ok\<close>: the status is in the range 200 to 299.\<close>

definition ok :: "response \<Rightarrow> bool" where
  "ok r \<longleftrightarrow> 200 \<le> status r \<and> status r \<le> 299"

text \<open>
  What the code calls and does not define: \<open>fetch\<close> (the server and the network, a state
  machine over a world \<open>'w\<close>; \<open>Inl\<close> is a rejected promise), the \<open>URL\<close> constructor
  (throws on an invalid URL, gives the \<open>href\<close> otherwise) and the signing of a message by
  an ethers wallet.
\<close>

record 'w runtime =
  fetch :: "'w \<Rightarrow> request \<Rightarrow> (thrown + response) \<times> 'w"
  new_URL :: "string \<Rightarrow> thrown + string"
  wallet_signMessage :: "string \<Rightarrow> string \<Rightarrow> thrown + string"

section \<open>auth.ts\<close>

text \<open>
  \<open>AuthConfig\<close>: an optional property is \<open>None\<close> when it is undefined. \<open>AuthTokens\<close>: the
  interface declares two strings, and \<open>authenticate\<close> fills them with the properties of
  the login response as they come, unchecked: a JSON value, or \<open>None\<close> for a property the
  response does not have.
\<close>

record AuthConfig =
  apiBaseUrl :: string
  origin :: string
  address :: "string option"
  chainId :: "int option"
  privateKey :: "string option"

record AuthTokens =
  accessToken :: "json option"
  refreshToken :: "json option"

text \<open>
  The state of the process: the module variable \<open>cachedTokens\<close> of config.ts, the world
  behind \<open>fetch\<close>, and the requests sent so far, oldest first.
\<close>

record 'w state =
  cachedTokens :: "AuthTokens option"
  world :: "'w"
  requests :: "request list"

definition do_fetch :: "'w runtime \<Rightarrow> request \<Rightarrow> 'w state \<Rightarrow> (thrown + response) \<times> 'w state" where
  "do_fetch rt req s =
     (case fetch rt (world s) req of
        (r, w') \<Rightarrow> (r, s\<lparr>world := w', requests := requests s @ [req]\<rparr>))"

text \<open>Truthiness of an optional string: defined and not empty.\<close>

definition truthy :: "string option \<Rightarrow> bool" where
  "truthy v \<longleftrightarrow> (case v of None \<Rightarrow> False | Some s \<Rightarrow> s \<noteq> [])"

text \<open>\<open>getChallenge\<close>, up to the call of \<open>fetch\<close>: the request it builds.\<close>

definition getChallenge_request :: "'w runtime \<Rightarrow> AuthConfig \<Rightarrow> thrown + request" where
  "getChallenge_request rt config =
     (case new_URL rt (apiBaseUrl config @ ''/challenge'') of
        Inl e \<Rightarrow> Inl e
      | Inr href \<Rightarrow>
          Inr \<lparr>http_method = ''GET'', url = href,
               searchParams =
                 (if truthy (address config) then [(''address'', the (address config))] else []) @
                 (case chainId config of
                    None \<Rightarrow> []
                  | Some n \<Rightarrow> if n \<noteq> 0 then [(''chainid'', show_int n)] else []),
               headers = [(''Origin'', origin config)],
               body = NoBody\<rparr>)"

definition failed_message :: "string \<Rightarrow> response \<Rightarrow> string" where
  "failed_message what r =
     what @ show_nat (status r) @ '' '' @ statusText r @ '' - '' @ resp_text r"

text \<open>\<open>getChallenge\<close>, from the outcome of \<open>fetch\<close> on.\<close>

definition getChallenge_result :: "thrown + response \<Rightarrow> thrown + string" where
  "getChallenge_result r =
     (case r of
        Inl e \<Rightarrow> Inl e
      | Inr response \<Rightarrow>
          if \<not> ok response
          then Inl (new_Error (failed_message ''Failed to get challenge: '' response))
          else Inr (resp_text response))"

definition getChallenge :: "'w runtime \<Rightarrow> AuthConfig \<Rightarrow> 'w state \<Rightarrow> (thrown + string) \<times> 'w state" where
  "getChallenge rt config s =
     (case getChallenge_request rt config of
        Inl e \<Rightarrow> (Inl e, s)
      | Inr req \<Rightarrow> (case do_fetch rt req s of (r, s1) \<Rightarrow> (getChallenge_result r, s1)))"

definition login_request :: "'w runtime \<Rightarrow> AuthConfig \<Rightarrow> string \<Rightarrow> string \<Rightarrow> thrown + request" where
  "login_request rt config msg signature =
     (case new_URL rt (apiBaseUrl config @ ''/login'') of
        Inl e \<Rightarrow> Inl e
      | Inr href \<Rightarrow>
          Inr \<lparr>http_method = ''POST'', url = href, searchParams = [],
               headers = [(''Content-Type'', ''application/json'')],
               body = JsonBody (stringify (JObj [(''message'', JStr msg),
                                                 (''signature'', JStr signature)]))\<rparr>)"

definition login_result :: "thrown + response \<Rightarrow> thrown + json" where
  "login_result r =
     (case r of
        Inl e \<Rightarrow> Inl e
      | Inr response \<Rightarrow>
          if \<not> ok response
          then Inl (new_Error (failed_message ''Failed to login: '' response))
          else resp_json response)"

definition login :: "'w runtime \<Rightarrow> AuthConfig \<Rightarrow> string \<Rightarrow> string \<Rightarrow> 'w state \<Rightarrow> (thrown + json) \<times> 'w state" where
  "login rt config msg signature s =
     (case login_request rt config msg signature of
        Inl e \<Rightarrow> (Inl e, s)
      | Inr req \<Rightarrow> (case do_fetch rt req s of (r, s1) \<Rightarrow> (login_result r, s1)))"

definition is_hex_char :: "char \<Rightarrow> bool" where
  "is_hex_char c \<longleftrightarrow>
     (let n = (of_char c :: nat)
      in (48 \<le> n \<and> n \<le> 57) \<or> (97 \<le> n \<and> n \<le> 102) \<or> (65 \<le> n \<and> n \<le> 70))"

text \<open>The test of \<open>/^[0-9a-fA-F]+$/\<close>: at least one character, all of them hex digits.\<close>

definition hex_regex :: "string \<Rightarrow> bool" where
  "hex_regex s \<longleftrightarrow> s \<noteq> [] \<and> list_all is_hex_char s"

text \<open>\<open>privateKey.startsWith('0x') ? privateKey.slice(2) : privateKey\<close>\<close>

definition cleanKey :: "string \<Rightarrow> string" where
  "cleanKey k = (if take 2 k = ''0x'' then drop 2 k else k)"

text \<open>
  \<open>new ethers.Wallet(key)\<close> on a 0x-prefixed string of hex digits: the library takes a key
  of 32 bytes (64 hex digits) and throws on every other length, as the repository's test
  \<open>should throw error for invalid private key length\<close> expects. The wallet is modelled
  by its key, the text of the library's message by \<open>invalid private key\<close>.
\<close>

definition ethers_Wallet :: "string \<Rightarrow> thrown + string" where
  "ethers_Wallet key =
     (if length key = 66 then Inr key else Inl (new_Error ''invalid private key''))"

text \<open>The body of the \<open>try\<close> block of \<open>signMessage\<close>.\<close>

definition signMessage_try :: "'w runtime \<Rightarrow> string \<Rightarrow> string \<Rightarrow> thrown + string" where
  "signMessage_try rt key msg =
     (if \<not> hex_regex (cleanKey key)
      then Inl (new_Error ''Invalid hex format for private key'')
      else case ethers_Wallet (''0x'' @ cleanKey key) of
             Inl e \<Rightarrow> Inl e
           | Inr wallet \<Rightarrow> wallet_signMessage rt wallet msg)"

definition signMessage :: "'w runtime \<Rightarrow> string option \<Rightarrow> string \<Rightarrow> thrown + string" where
  "signMessage rt key msg =
     (if \<not> truthy key then Inl (new_Error ''Private key is required for signing messages'')
      else if msg = [] then Inl (new_Error ''Message cannot be empty'')
      else case signMessage_try rt (the key) msg of
             Inl e \<Rightarrow> Inl (new_Error (''Failed to sign message: '' @ message_or_String e))
           | Inr signature \<Rightarrow> Inr signature)"

text \<open>
  The end of \<open>authenticate\<close>: the two properties read off the login response.
\<close>

definition tokens_of :: "json \<Rightarrow> thrown + AuthTokens" where
  "tokens_of loginResponse =
     (case get_prop loginResponse ''accessToken'' of
        Inl e \<Rightarrow> Inl e
      | Inr a \<Rightarrow>
          (case get_prop loginResponse ''refreshToken'' of
             Inl e \<Rightarrow> Inl e
           | Inr r \<Rightarrow> Inr \<lparr>accessToken = a, refreshToken = r\<rparr>))"

definition authenticate :: "'w runtime \<Rightarrow> AuthConfig \<Rightarrow> 'w state \<Rightarrow> (thrown + AuthTokens) \<times> 'w state" where
  "authenticate rt config s =
     (if \<not> truthy (privateKey config)
      then (Inl (new_Error ''Private key is required for authentication''), s)
      else case getChallenge rt config s of
             (Inl e, s1) \<Rightarrow> (Inl e, s1)
           | (Inr msg, s1) \<Rightarrow>
               (case signMessage rt (privateKey config) msg of
                  Inl e \<Rightarrow> (Inl e, s1)
                | Inr signature \<Rightarrow>
                    (case login rt config msg signature s1 of
                       (Inl e, s2) \<Rightarrow> (Inl e, s2)
                     | (Inr loginResponse, s2) \<Rightarrow> (tokens_of loginResponse, s2))))"

section \<open>config.ts\<close>

definition getAuthTokens :: "'w runtime \<Rightarrow> AuthConfig \<Rightarrow> 'w state \<Rightarrow> (thrown + AuthTokens) \<times> 'w state" where
  "getAuthTokens rt config s =
     (case cachedTokens s of
        Some tokens \<Rightarrow> (Inr tokens, s)
      | None \<Rightarrow>
          (case authenticate rt config s of
             (Inl e, s1) \<Rightarrow> (Inl e, s1)
           | (Inr tokens, s1) \<Rightarrow> (Inr tokens, s1\<lparr>cachedTokens := Some tokens\<rparr>)))"

definition clearAuthTokens :: "'w state \<Rightarrow> 'w state" where
  "clearAuthTokens s = s\<lparr>cachedTokens := None\<rparr>"


section \<open>utils.ts\<close>

subsection \<open>The base64 decoder of multiformats\<close>

text \<open>
  The package multiformats is a dependency of the repository, not part of it. The model
  follows the decoder of its \<open>base64\<close> codec: prefix \<open>m\<close>, the standard alphabet, six
  bits per character, padding optional.
\<close>

definition base64_alphabet :: string where
  "base64_alphabet = ''ABCDEFGHIJKLMNOPQRSTUVWXYZabcdefghijklmnopqrstuvwxyz0123456789+/''"

text \<open>The lookup table \<open>codes[alphabet[i]] = i\<close>.\<close>

fun index_of :: "char \<Rightarrow> string \<Rightarrow> nat option" where
  "index_of c [] = None"
| "index_of c (x # xs) = (if c = x then Some 0 else map_option Suc (index_of c xs))"

definition codes :: "char \<Rightarrow> nat option" where
  "codes c = index_of c base64_alphabet"

text \<open>
  The loop of the library's \<open>decode\<close> (bitsPerChar = 6) over the characters before the
  padding: \<open>buffer\<close> is a 32-bit integer, a byte leaves it as soon as eight bits are in.
\<close>

fun decode_loop :: "string \<Rightarrow> nat \<Rightarrow> 32 word \<Rightarrow> byte list \<Rightarrow> thrown + (nat \<times> 32 word \<times> byte list)" where
  "decode_loop [] bits buffer out = Inr (bits, buffer, out)"
| "decode_loop (c # cs) bits buffer out =
     (case codes c of
        None \<Rightarrow> Inl (ErrorObj ''SyntaxError'' ''Non-base64 character'' NoCause)
      | Some v \<Rightarrow>
          (let buffer' = push_bit 6 buffer OR word_of_nat v; bits' = bits + 6
           in if bits' \<ge> 8
              then decode_loop cs (bits' - 8) buffer'
                     (out @ [ucast (0xff AND signed_drop_bit (bits' - 8) buffer')])
              else decode_loop cs bits' buffer' out))"

text \<open>\<open>while (string[end - 1] === '=') --end\<close>\<close>

definition strip_padding :: "string \<Rightarrow> string" where
  "strip_padding s = rev (dropWhile (\<lambda>c. c = CHR ''='') (rev s))"

definition rfc4648_decode :: "string \<Rightarrow> thrown + byte list" where
  "rfc4648_decode s =
     (case decode_loop (strip_padding s) 0 0 [] of
        Inl e \<Rightarrow> Inl e
      | Inr (bits, buffer, out) \<Rightarrow>
          if bits \<ge> 6 \<or> 0xff AND push_bit (8 - bits) buffer \<noteq> 0
          then Inl (ErrorObj ''SyntaxError'' ''Unexpected end of data'' NoCause)
          else Inr out)"

text \<open>
  \<open>base64.decode\<close>: a multibase string, the prefix \<open>m\<close> first and the base64 text
  after it. The library's message names the string and the codec; \<open>base64ToBytes\<close>
  catches the error and drops the message.
\<close>

definition base64_decode :: "string \<Rightarrow> thrown + byte list" where
  "base64_decode text =
     (case text of
        [] \<Rightarrow> Inl (new_Error ''Unable to decode multibase string'')
      | c # rest \<Rightarrow>
          if c \<noteq> CHR ''m'' then Inl (new_Error ''Unable to decode multibase string'')
          else rfc4648_decode rest)"

subsection \<open>The base64 codec of \<open>Buffer\<close>\<close>

text \<open>
  \<open>Buffer\<close> belongs to the Node.js runtime. \<open>Buffer.from(s, 'base64')\<close> never throws: it
  reads the standard and the URL-safe alphabet, skips every other character and stops at
  the first \<open>=\<close>; a last group of two or three characters gives one or two bytes.
\<close>

definition unbase64 :: "char \<Rightarrow> nat option" where
  "unbase64 c =
     (if c = CHR ''-'' then Some 62 else if c = CHR ''_'' then Some 63 else codes c)"

fun sextets_to_bytes :: "nat list \<Rightarrow> byte list" where
  "sextets_to_bytes (a # b # c # d # rest) =
     [word_of_nat (a * 4 + b div 16), word_of_nat (b mod 16 * 16 + c div 4),
      word_of_nat (c mod 4 * 64 + d)] @ sextets_to_bytes rest"
| "sextets_to_bytes [a, b, c] =
     [word_of_nat (a * 4 + b div 16), word_of_nat (b mod 16 * 16 + c div 4)]"
| "sextets_to_bytes [a, b] = [word_of_nat (a * 4 + b div 16)]"
| "sextets_to_bytes _ = []"

definition Buffer_from_base64 :: "string \<Rightarrow> byte list" where
  "Buffer_from_base64 s =
     sextets_to_bytes (List.map_filter unbase64 (takeWhile (\<lambda>c. c \<noteq> CHR ''='') s))"

text \<open>\<open>buffer.toString('base64')\<close>: the standard alphabet, padded with \<open>=\<close>.\<close>

definition b64_char :: "nat \<Rightarrow> char" where
  "b64_char n = base64_alphabet ! (n mod 64)"

fun Buffer_toString_base64 :: "byte list \<Rightarrow> string" where
  "Buffer_toString_base64 (x # y # z # rest) =
     [b64_char (unat x div 4), b64_char (unat x mod 4 * 16 + unat y div 16),
      b64_char (unat y mod 16 * 4 + unat z div 64), b64_char (unat z mod 64)]
     @ Buffer_toString_base64 rest"
| "Buffer_toString_base64 [x, y] =
     [b64_char (unat x div 4), b64_char (unat x mod 4 * 16 + unat y div 16),
      b64_char (unat y mod 16 * 4), CHR ''='']"
| "Buffer_toString_base64 [x] =
     [b64_char (unat x div 4), b64_char (unat x mod 4 * 16), CHR ''='', CHR ''='']"
| "Buffer_toString_base64 [] = []"

subsection \<open>\<open>base64ToBytes\<close>\<close>

text \<open>
  The rest of a match of \<open>.*?;base64,\<close>: the lazy quantifier tries \<open>;base64,\<close> at each
  position before it takes one more character, and \<open>.\<close> takes no line terminator.
\<close>

fun after_marker :: "string \<Rightarrow> string option" where
  "after_marker [] = None"
| "after_marker (c # cs) =
     (if take 8 (c # cs) = '';base64,'' then Some (drop 8 (c # cs))
      else if c = CHR 0x0A \<or> c = CHR 0x0D then None
      else after_marker cs)"

text \<open>\<open>base64Str.replace(/^data:.*?;base64,/, '')\<close>\<close>

definition remove_data_url_prefix :: "string \<Rightarrow> string" where
  "remove_data_url_prefix s =
     (if take 5 s = ''data:''
      then (case after_marker (drop 5 s) of Some rest \<Rightarrow> rest | None \<Rightarrow> s)
      else s)"

definition base64ToBytes :: "string \<Rightarrow> thrown + byte list" where
  "base64ToBytes base64Str =
     (let cleanStr = remove_data_url_prefix base64Str;
          prefixedStr = (if take 1 cleanStr = ''m'' then cleanStr else ''m'' @ cleanStr)
      in case base64_decode prefixedStr of
           Inr bytes \<Rightarrow> Inr bytes
         | Inl error \<Rightarrow>
             (let buffer = Buffer_from_base64 cleanStr
              in if Buffer_toString_base64 buffer = cleanStr then Inr buffer
                 else Inl (new_Error ''Invalid base64 format'')))"

section \<open>client.ts\<close>

record ApiConfig =
  api_apiBaseUrl :: string
  api_accessToken :: "json option"

record UploadOptions =
  opt_key :: "string option"
  opt_public :: "bool option"
  opt_user :: "string option"

definition upload_form :: "byte list \<Rightarrow> string \<Rightarrow> UploadOptions \<Rightarrow> (string \<times> form_value) list" where
  "upload_form file filename options =
     [(''file'', FormFile file filename ''application/octet-stream'')] @
     (if truthy (opt_key options) then [(''key'', FormText (the (opt_key options)))] else []) @
     (if opt_public options = Some True then [(''public'', FormText ''true'')] else []) @
     (if truthy (opt_user options) then [(''user'', FormText (the (opt_user options)))] else [])"

definition bearer :: "ApiConfig \<Rightarrow> (string \<times> string) list" where
  "bearer config = [(''Authorization'', ''Bearer '' @ template_String (api_accessToken config))]"

definition uploadFile_request :: "'w runtime \<Rightarrow> ApiConfig \<Rightarrow> byte list \<Rightarrow> string \<Rightarrow> UploadOptions \<Rightarrow> thrown + request" where
  "uploadFile_request rt config file filename options =
     (case new_URL rt (api_apiBaseUrl config @ ''/mefs/'') of
        Inl e \<Rightarrow> Inl e
      | Inr href \<Rightarrow>
          Inr \<lparr>http_method = ''POST'', url = href, searchParams = [],
               headers = bearer config,
               body = FormBody (upload_form file filename options)\<rparr>)"

definition uploadFile_result :: "thrown + response \<Rightarrow> thrown + json" where
  "uploadFile_result r =
     (case r of
        Inl e \<Rightarrow> Inl e
      | Inr response \<Rightarrow>
          if \<not> ok response
          then Inl (new_Error (failed_message ''Failed to upload file: '' response))
          else resp_json response)"

definition uploadFile :: "'w runtime \<Rightarrow> ApiConfig \<Rightarrow> byte list \<Rightarrow> string \<Rightarrow> UploadOptions \<Rightarrow> 'w state \<Rightarrow> (thrown + json) \<times> 'w state" where
  "uploadFile rt config file filename options s =
     (case uploadFile_request rt config file filename options of
        Inl e \<Rightarrow> (Inl e, s)
      | Inr req \<Rightarrow> (case do_fetch rt req s of (r, s1) \<Rightarrow> (uploadFile_result r, s1)))"

record DownloadResult =
  data :: "byte list"
  filename :: string
  contentType :: "string option"

text \<open>
  The match of \<open>"?([^"]+)"?\<close> right after \<open>filename=\<close>: the capture is the longest run of
  characters other than the quote, after the quote when there is one, and is not empty.
\<close>

definition capture_filename :: "string \<Rightarrow> string option" where
  "capture_filename s =
     (let s' = (case s of [] \<Rightarrow> [] | c # cs \<Rightarrow> if c = CHR 0x22 then cs else s);
          cap = takeWhile (\<lambda>c. c \<noteq> CHR 0x22) s'
      in if cap = [] then None else Some cap)"

text \<open>\<open>contentDisposition.match(/filename="?([^"]+)"?/)\<close>: the leftmost match, group 1.\<close>

fun filename_match :: "string \<Rightarrow> string option" where
  "filename_match [] = None"
| "filename_match (c # cs) =
     (if take 9 (c # cs) = ''filename=''
      then (case capture_filename (drop 9 (c # cs)) of
              Some f \<Rightarrow> Some f
            | None \<Rightarrow> filename_match cs)
      else filename_match cs)"

text \<open>
  What it means that the pattern \<open>filename="?([^"]+)"?\<close> matches a header at position
  \<open>i\<close> with the group \<open>f\<close>, said without the search: the header is a text of length \<open>i\<close>,
  then \<open>filename=\<close>, then a quote or nothing, then \<open>f\<close>, then the rest; \<open>f\<close> is not empty
  and has no quote. The quantifiers are greedy, so \<open>f\<close> runs up to the next quote or to
  the end of the header; and as \<open>f\<close> cannot start with a quote, a quote after
  \<open>filename=\<close> is always the optional one.
\<close>

definition pattern_matches_at :: "string \<Rightarrow> nat \<Rightarrow> string \<Rightarrow> bool" where
  "pattern_matches_at cd i f \<longleftrightarrow>
     (\<exists>pre q post.
        cd = pre @ ''filename='' @ q @ f @ post \<and> length pre = i \<and>
        (q = [] \<or> q = [CHR 0x22]) \<and> f \<noteq> [] \<and> CHR 0x22 \<notin> set f \<and>
        (post = [] \<or> hd post = CHR 0x22))"

text \<open>\<open>response.headers.get(name)\<close>\<close>

definition headers_get :: "response \<Rightarrow> string \<Rightarrow> string option" where
  "headers_get response name = map_of (resp_headers response) name"

definition downloadFile_request :: "'w runtime \<Rightarrow> ApiConfig \<Rightarrow> string \<Rightarrow> string option \<Rightarrow> thrown + request" where
  "downloadFile_request rt config cid key =
     (case new_URL rt (api_apiBaseUrl config @ ''/mefs/'' @ cid) of
        Inl e \<Rightarrow> Inl e
      | Inr href \<Rightarrow>
          Inr \<lparr>http_method = ''GET'', url = href,
               searchParams = (if truthy key then [(''key'', the key)] else []),
               headers = bearer config,
               body = NoBody\<rparr>)"

definition downloadFile_result :: "thrown + response \<Rightarrow> thrown + DownloadResult" where
  "downloadFile_result r =
     (case r of
        Inl e \<Rightarrow> Inl e
      | Inr response \<Rightarrow>
          if \<not> ok response
          then Inl (new_Error (failed_message ''Failed to download file: '' response))
          else
            (let contentType = (if truthy (headers_get response ''content-type'')
                                then headers_get response ''content-type'' else None);
                 contentDisposition = (if truthy (headers_get response ''content-disposition'')
                                       then the (headers_get response ''content-disposition'') else []);
                 filename = (case filename_match contentDisposition of
                               Some f \<Rightarrow> f
                             | None \<Rightarrow> ''unknown'')
             in Inr \<lparr>data = resp_arrayBuffer response, filename = filename,
                     contentType = contentType\<rparr>))"

definition downloadFile :: "'w runtime \<Rightarrow> ApiConfig \<Rightarrow> string \<Rightarrow> string option \<Rightarrow> 'w state \<Rightarrow> (thrown + DownloadResult) \<times> 'w state" where
  "downloadFile rt config cid key s =
     (case downloadFile_request rt config cid key of
        Inl e \<Rightarrow> (Inl e, s)
      | Inr req \<Rightarrow> (case do_fetch rt req s of (r, s1) \<Rightarrow> (downloadFile_result r, s1)))"


section \<open>The tools\<close>

text \<open>
  One element of the \<open>content\<close> array of a tool result: \<open>error_flag\<close> holds when the
  element has the property \<open>error: true\<close>, \<open>item_text\<close> is its \<open>text\<close>.
\<close>

record content_item =
  error_flag :: bool
  item_type :: string
  item_text :: string

type_synonym tool_result = "content_item list"

text \<open>
  The \<open>catch\<close> block of both handlers (the retrieve tool adds \<open>apiBaseUrl\<close>, given here as
  \<open>extra\<close>): \<open>name\<close> and \<open>message\<close> of an \<open>Error\<close>, \<open>Error\<close> and \<open>Unknown error\<close> for another
  thrown value; \<open>cause\<close> is \<open>error.cause.message\<close> when the \<open>Error\<close> has a truthy cause, which
  is \<open>undefined\<close> for a cause without message, and \<open>null\<close> otherwise. The object goes through
  \<open>JSON.stringify\<close>, which leaves an \<open>undefined\<close> property out. No statement of either
  \<open>try\<close> block throws a \<open>ZodError\<close>, so the branch of the upload tool for it is never taken.
\<close>

fun error_payload :: "thrown \<Rightarrow> (string \<times> json option) list" where
  "error_payload (ErrorObj n m c) =
     [(''name'', Some (JStr n)), (''message'', Some (JStr m)),
      (''cause'', case c of NoCause \<Rightarrow> Some JNull | Cause cm \<Rightarrow> cm)]"
| "error_payload (NonError v) =
     [(''name'', Some (JStr ''Error'')), (''message'', Some (JStr ''Unknown error'')),
      (''cause'', Some JNull)]"

definition error_result :: "thrown \<Rightarrow> (string \<times> json option) list \<Rightarrow> tool_result" where
  "error_result e extra =
     [\<lparr>error_flag = True, item_type = ''text'',
       item_text = stringify (object_literal (error_payload e @ extra))\<rparr>]"

definition success_result :: "(string \<times> json option) list \<Rightarrow> tool_result" where
  "success_result fs =
     [\<lparr>error_flag = False, item_type = ''text'', item_text = stringify (object_literal fs)\<rparr>]"

subsection \<open>upload.ts\<close>

record upload_input =
  in_file :: string
  in_name :: string
  in_key :: "string option"
  in_public :: "bool option"

text \<open>
  \<open>uploadInputSchema\<close>, as the tool framework checks an input before it calls the
  handler: \<open>file\<close> is not empty and \<open>base64ToBytes\<close> does not throw on it, \<open>name\<close> is not
  empty.
\<close>

definition uploadInputSchema :: "upload_input \<Rightarrow> bool" where
  "uploadInputSchema input \<longleftrightarrow>
     in_file input \<noteq> [] \<and>
     (case base64ToBytes (in_file input) of Inl e \<Rightarrow> False | Inr bytes \<Rightarrow> True) \<and>
     in_name input \<noteq> []"

text \<open>The \<open>try\<close> block of the handler of the upload tool.\<close>

definition upload_try :: "'w runtime \<Rightarrow> AuthConfig \<Rightarrow> upload_input \<Rightarrow> 'w state \<Rightarrow> (thrown + tool_result) \<times> 'w state" where
  "upload_try rt mefsConfig input s =
     (case base64ToBytes (in_file input) of
        Inl e \<Rightarrow> (Inl e, s)
      | Inr fileBytes \<Rightarrow>
          (case getAuthTokens rt mefsConfig s of
             (Inl e, s1) \<Rightarrow> (Inl e, s1)
           | (Inr tokens, s1) \<Rightarrow>
               (case uploadFile rt
                       \<lparr>api_apiBaseUrl = apiBaseUrl mefsConfig,
                        api_accessToken = accessToken tokens\<rparr>
                       fileBytes (in_name input)
                       \<lparr>opt_key = in_key input, opt_public = in_public input, opt_user = None\<rparr>
                       s1 of
                  (Inl e, s2) \<Rightarrow> (Inl e, s2)
                | (Inr result, s2) \<Rightarrow>
                    (case get_prop result ''Mid'' of
                       Inl e \<Rightarrow> (Inl e, s2)
                     | Inr mid \<Rightarrow>
                         (Inr (success_result
                                 [(''cid'', mid),
                                  (''filename'', Some (JStr (in_name input))),
                                  (''size'', Some (JNum (int (length fileBytes))))]), s2)))))"

definition upload_handler :: "'w runtime \<Rightarrow> AuthConfig \<Rightarrow> upload_input \<Rightarrow> 'w state \<Rightarrow> tool_result \<times> 'w state" where
  "upload_handler rt mefsConfig input s =
     (case upload_try rt mefsConfig input s of
        (Inr result, s') \<Rightarrow> (result, s')
      | (Inl error, s') \<Rightarrow> (error_result error [], s'))"

subsection \<open>retrieve.ts\<close>

record retrieve_input =
  in_cid :: string
  in_dkey :: "string option"

definition bytesToBase64 :: "byte list \<Rightarrow> string" where
  "bytesToBase64 bytes = Buffer_toString_base64 bytes"

definition retrieve_try :: "'w runtime \<Rightarrow> AuthConfig \<Rightarrow> retrieve_input \<Rightarrow> 'w state \<Rightarrow> (thrown + tool_result) \<times> 'w state" where
  "retrieve_try rt mefsConfig input s =
     (case getAuthTokens rt mefsConfig s of
        (Inl e, s1) \<Rightarrow> (Inl e, s1)
      | (Inr tokens, s1) \<Rightarrow>
          (case downloadFile rt
                  \<lparr>api_apiBaseUrl = apiBaseUrl mefsConfig,
                   api_accessToken = accessToken tokens\<rparr>
                  (in_cid input) (in_dkey input) s1 of
             (Inl e, s2) \<Rightarrow> (Inl e, s2)
           | (Inr result, s2) \<Rightarrow>
               (Inr (success_result
                       [(''cid'', Some (JStr (in_cid input))),
                        (''filename'', Some (JStr (filename result))),
                        (''file'', Some (JStr (bytesToBase64 (data result)))),
                        (''size'', Some (JNum (int (length (data result))))),
                        (''contentType'', map_option JStr (contentType result))]), s2)))"

definition retrieve_handler :: "'w runtime \<Rightarrow> AuthConfig \<Rightarrow> retrieve_input \<Rightarrow> 'w state \<Rightarrow> tool_result \<times> 'w state" where
  "retrieve_handler rt mefsConfig input s =
     (case retrieve_try rt mefsConfig input s of
        (Inr result, s') \<Rightarrow> (result, s')
      | (Inl error, s') \<Rightarrow>
          (error_result error [(''apiBaseUrl'', Some (JStr (apiBaseUrl mefsConfig)))], s'))"

section \<open>Calls of \<open>getAuthTokens\<close> in flight together\<close>

text \<open>
  An \<open>async\<close> call runs until it awaits a response and resumes when the event loop hands
  it the response; between two awaits it runs alone. A call of \<open>getAuthTokens\<close> is a task:
  not yet started, awaiting the response to its challenge request, awaiting the response
  to its login request, or settled. The request is sent, and the server answers it, when
  the task reaches the \<open>fetch\<close>. The other awaits of the call (reading a body, signing)
  touch neither the cache nor the network and are no scheduling points here.
\<close>

datatype task =
    Start AuthConfig
  | AwaitChallenge AuthConfig "thrown + response"
  | AwaitLogin AuthConfig "thrown + response"
  | Done "thrown + AuthTokens"

fun resume :: "'w runtime \<Rightarrow> task \<Rightarrow> 'w state \<Rightarrow> task \<times> 'w state" where
  "resume rt (Start config) s =
     (case cachedTokens s of
        Some tokens \<Rightarrow> (Done (Inr tokens), s)
      | None \<Rightarrow>
          if \<not> truthy (privateKey config)
          then (Done (Inl (new_Error ''Private key is required for authentication'')), s)
          else (case getChallenge_request rt config of
                  Inl e \<Rightarrow> (Done (Inl e), s)
                | Inr req \<Rightarrow>
                    (case do_fetch rt req s of (r, s1) \<Rightarrow> (AwaitChallenge config r, s1))))"
| "resume rt (AwaitChallenge config r) s =
     (case getChallenge_result r of
        Inl e \<Rightarrow> (Done (Inl e), s)
      | Inr msg \<Rightarrow>
          (case signMessage rt (privateKey config) msg of
             Inl e \<Rightarrow> (Done (Inl e), s)
           | Inr signature \<Rightarrow>
               (case login_request rt config msg signature of
                  Inl e \<Rightarrow> (Done (Inl e), s)
                | Inr req \<Rightarrow>
                    (case do_fetch rt req s of (r', s1) \<Rightarrow> (AwaitLogin config r', s1)))))"
| "resume rt (AwaitLogin config r) s =
     (case login_result r of
        Inl e \<Rightarrow> (Done (Inl e), s)
      | Inr loginResponse \<Rightarrow>
          (case tokens_of loginResponse of
             Inl e \<Rightarrow> (Done (Inl e), s)
           | Inr tokens \<Rightarrow> (Done (Inr tokens), s\<lparr>cachedTokens := Some tokens\<rparr>)))"
| "resume rt (Done r) s = (Done r, s)"

text \<open>The event loop resumes task \<open>i\<close>; a schedule is the order in which it does so.\<close>

definition step :: "'w runtime \<Rightarrow> 'w state \<times> task list \<Rightarrow> nat \<Rightarrow> 'w state \<times> task list" where
  "step rt st i =
     (case st of (s, ts) \<Rightarrow>
        if i < length ts
        then (case resume rt (ts ! i) s of (t', s') \<Rightarrow> (s', ts[i := t']))
        else (s, ts))"

definition run :: "'w runtime \<Rightarrow> nat list \<Rightarrow> 'w state \<times> task list \<Rightarrow> 'w state \<times> task list" where
  "run rt schedule st = foldl (step rt) st schedule"

section \<open>The failure classes of the specification\<close>

text \<open>
  The code throws \<open>Error\<close> objects told apart by their messages; the classes of the
  specification are these messages.
\<close>

definition EmptyInput :: "thrown \<Rightarrow> bool" where
  "EmptyInput e \<longleftrightarrow>
     e = new_Error ''Private key is required for signing messages'' \<or>
     e = new_Error ''Message cannot be empty''"

definition InvalidKeyFormat :: "thrown \<Rightarrow> bool" where
  "InvalidKeyFormat e \<longleftrightarrow>
     (case e of
        ErrorObj n m c \<Rightarrow> n = ''Error'' \<and> c = NoCause \<and> take 24 m = ''Failed to sign message: ''
      | NonError v \<Rightarrow> False)"

definition MissingPrivateKey :: "thrown \<Rightarrow> bool" where
  "MissingPrivateKey e \<longleftrightarrow> e = new_Error ''Private key is required for authentication''"

definition InvalidEncoding :: "thrown \<Rightarrow> bool" where
  "InvalidEncoding e \<longleftrightarrow> e = new_Error ''Invalid base64 format''"

section \<open>A mock transport\<close>

definition mock_response :: response where
  "mock_response =
     \<lparr>status = 200, statusText = ''OK'', resp_headers = [], resp_text = [],
      resp_json = Inl (ErrorObj ''SyntaxError'' ''Unexpected end of JSON input'' NoCause),
      resp_arrayBuffer = []\<rparr>"

text \<open>
  A server that numbers the requests it answers: a fresh challenge for each challenge
  request, a fresh token pair for each login, one stored file of four bytes.
\<close>

definition mock_fetch :: "nat \<Rightarrow> request \<Rightarrow> (thrown + response) \<times> nat" where
  "mock_fetch n req =
     (if url req = ''https://api/challenge''
      then (Inr (mock_response\<lparr>resp_text := ''challenge-'' @ show_nat n\<rparr>), Suc n)
      else if url req = ''https://api/login''
      then (Inr (mock_response\<lparr>resp_json := Inr (JObj
                   [(''accessToken'', JStr (''access-'' @ show_nat n)),
                    (''refreshToken'', JStr (''refresh-'' @ show_nat n)),
                    (''newAccount'', JBool False)])\<rparr>), Suc n)
      else if url req = ''https://api/mefs/''
      then (Inr (mock_response\<lparr>resp_json := Inr (JObj [(''Mid'', JStr ''bafy-test'')])\<rparr>), Suc n)
      else if url req = ''https://api/mefs/bafy-test''
      then (Inr (mock_response
                   \<lparr>resp_headers := [(''content-type'', ''text/plain''),
                                     (''content-disposition'',
                                      ''attachment; filename='' @ [CHR 0x22] @ ''test.txt'' @ [CHR 0x22])],
                    resp_arrayBuffer := [116, 101, 115, 116]\<rparr>), Suc n)
      else (Inr (mock_response\<lparr>status := 404, statusText := ''Not Found'',
                               resp_text := ''no such file''\<rparr>), Suc n))"

definition mock_rt :: "nat runtime" where
  "mock_rt = \<lparr>fetch = mock_fetch, new_URL = Inr,
              wallet_signMessage = (\<lambda>wallet msg. Inr (''0xsigned:'' @ msg))\<rparr>"

text \<open>A transport with no server behind it: every \<open>fetch\<close> is rejected.\<close>

definition offline_rt :: "nat runtime" where
  "offline_rt =
     \<lparr>fetch = (\<lambda>n req. (Inl (ErrorObj ''TypeError'' ''fetch failed''
                                 (Cause (Some (JStr ''connect ECONNREFUSED'')))), n)),
      new_URL = Inr,
      wallet_signMessage = (\<lambda>wallet msg. Inr (''0xsigned:'' @ msg))\<rparr>"

definition mock_config :: AuthConfig where
  "mock_config =
     \<lparr>apiBaseUrl = ''https://api'', origin = ''https://memo.io'',
      address = None, chainId = Some 985,
      privateKey = Some ''0xac0974bec39a17e36ba4a6b4d238ff944bacb478cbed5efcae784d7bf4f2ff80''\<rparr>"

definition empty_state :: "nat state" where
  "empty_state = \<lparr>cachedTokens = None, world = 0, requests = []\<rparr>"

definition mock_tokens :: AuthTokens where
  "mock_tokens = \<lparr>accessToken = Some (JStr ''access-1''), refreshToken = Some (JStr ''refresh-1'')\<rparr>"


section \<open>Properties of the token cache and of signing\<close>

lemma authenticate_cache: "cachedTokens (snd (authenticate rt config s)) = cachedTokens s"
  by (auto simp: authenticate_def getChallenge_def login_def do_fetch_def
           split: sum.splits prod.splits if_splits)

text \<open>
  C5. \<open>signMessage\<close> on an undefined or empty key, or on an empty message, fails with
  an error of the class EmptyInput; on a non-empty key and message, when the key after its
  optional \<open>0x\<close> prefix is not a string of 64 hex digits, it fails with an error of the
  class InvalidKeyFormat. The two classes do not overlap.
\<close>

theorem signMessage_failure_classes:
  "((key = None \<or> key = Some [] \<or> msg = []) \<longrightarrow>
      (\<exists>e. signMessage rt key msg = Inl e \<and> EmptyInput e \<and> \<not> InvalidKeyFormat e)) \<and>
   ((\<exists>k. key = Some k \<and> k \<noteq> [] \<and> msg \<noteq> [] \<and>
         \<not> (length (cleanKey k) = 64 \<and> list_all is_hex_char (cleanKey k))) \<longrightarrow>
      (\<exists>e. signMessage rt key msg = Inl e \<and> InvalidKeyFormat e \<and> \<not> EmptyInput e))"
  by (auto simp: signMessage_def signMessage_try_def truthy_def EmptyInput_def
        InvalidKeyFormat_def new_Error_def hex_regex_def ethers_Wallet_def
        split: sum.splits)

theorem signMessage_failure_classes_witness:
  "signMessage mock_rt None ''m'' =
     Inl (new_Error ''Private key is required for signing messages'') \<and>
   EmptyInput (new_Error ''Private key is required for signing messages'') \<and>
   \<not> (length (cleanKey ''not-hex'') = 64 \<and> list_all is_hex_char (cleanKey ''not-hex'')) \<and>
   signMessage mock_rt (Some ''not-hex'') ''m'' =
     Inl (new_Error ''Failed to sign message: Invalid hex format for private key'') \<and>
   InvalidKeyFormat (new_Error ''Failed to sign message: Invalid hex format for private key'')"
  using signMessage_failure_classes [of None "''m''" mock_rt]
        signMessage_failure_classes [of "Some ''not-hex''" "''m''" mock_rt]
  by (simp add: signMessage_def signMessage_try_def truthy_def new_Error_def hex_regex_def
        cleanKey_def is_hex_char_def EmptyInput_def InvalidKeyFormat_def)

lemma getAuthTokens_hit: "cachedTokens s = Some t \<Longrightarrow> getAuthTokens rt config s = (Inr t, s)"
  by (simp add: getAuthTokens_def)

lemma getAuthTokens_miss:
  "cachedTokens s = None \<Longrightarrow>
   getAuthTokens rt config s =
     (case authenticate rt config s of
        (Inl e, s1) \<Rightarrow> (Inl e, s1)
      | (Inr tokens, s1) \<Rightarrow> (Inr tokens, s1\<lparr>cachedTokens := Some tokens\<rparr>))"
  by (simp add: getAuthTokens_def)

lemma authenticate_success_requests:
  assumes "authenticate rt config s = (Inr t, s1)"
  shows "\<exists>creq lreq msg sg. getChallenge_request rt config = Inr creq \<and>
           login_request rt config msg sg = Inr lreq \<and>
           requests s1 = requests s @ [creq, lreq]"
  using assms
  by (fastforce simp: authenticate_def getChallenge_def login_def do_fetch_def
           split: sum.splits prod.splits if_splits)

text \<open>
  C2. A call of \<open>getAuthTokens\<close> that fails leaves \<open>cachedTokens\<close> as it was before the
  call; a call that returns a pair leaves exactly that pair in the cache (the cache holds
  at most one pair, being one optional value); and on an empty cache the call fails or
  succeeds as its authentication attempt does.
\<close>

theorem getAuthTokens_failure_keeps_cache:
  "(\<forall>e. fst (getAuthTokens rt config s) = Inl e \<longrightarrow>
        cachedTokens (snd (getAuthTokens rt config s)) = cachedTokens s) \<and>
   (\<forall>t. fst (getAuthTokens rt config s) = Inr t \<longrightarrow>
        cachedTokens (snd (getAuthTokens rt config s)) = Some t) \<and>
   (cachedTokens s = None \<longrightarrow>
        fst (getAuthTokens rt config s) = fst (authenticate rt config s))"
proof (cases "cachedTokens s")
  case None
  have c: "cachedTokens (snd (authenticate rt config s)) = None"
    using None by (simp add: authenticate_cache)
  show ?thesis
    using None c by (auto simp: getAuthTokens_miss split: prod.splits sum.splits)
next
  case (Some t)
  then show ?thesis by (simp add: getAuthTokens_hit)
qed

theorem getAuthTokens_failure_keeps_cache_witness:
  "fst (getAuthTokens offline_rt mock_config empty_state) =
     Inl (ErrorObj ''TypeError'' ''fetch failed'' (Cause (Some (JStr ''connect ECONNREFUSED'')))) \<and>
   cachedTokens (snd (getAuthTokens offline_rt mock_config empty_state)) = cachedTokens empty_state \<and>
   fst (getAuthTokens mock_rt mock_config empty_state) = Inr mock_tokens \<and>
   cachedTokens (snd (getAuthTokens mock_rt mock_config empty_state)) = Some mock_tokens"
proof -
  have f: "fst (getAuthTokens offline_rt mock_config empty_state) =
     Inl (ErrorObj ''TypeError'' ''fetch failed'' (Cause (Some (JStr ''connect ECONNREFUSED''))))"
    by code_simp
  have g: "fst (getAuthTokens mock_rt mock_config empty_state) = Inr mock_tokens"
    by code_simp
  show ?thesis
    using f g getAuthTokens_failure_keeps_cache [of offline_rt mock_config empty_state]
      getAuthTokens_failure_keeps_cache [of mock_rt mock_config empty_state]
    by simp
qed

text \<open>
  C3. On a cache that holds a pair, \<open>getAuthTokens\<close> returns that pair and leaves the
  state, with its list of requests sent, untouched. So when a call on an empty cache has
  succeeded, a second call returns the same pair, and the two calls together have sent
  two requests: one challenge request and one login request.
\<close>

theorem getAuthTokens_cache_hit:
  "(\<forall>t. cachedTokens s = Some t \<longrightarrow> getAuthTokens rt config s = (Inr t, s)) \<and>
   (\<forall>t s1. cachedTokens s = None \<and> getAuthTokens rt config s = (Inr t, s1) \<longrightarrow>
      getAuthTokens rt config s1 = (Inr t, s1) \<and>
      (\<exists>creq lreq msg sg.
          getChallenge_request rt config = Inr creq \<and>
          login_request rt config msg sg = Inr lreq \<and>
          requests s1 = requests s @ [creq, lreq]))"
proof (intro conjI allI impI)
  fix t assume "cachedTokens s = Some t"
  then show "getAuthTokens rt config s = (Inr t, s)" by (rule getAuthTokens_hit)
next
  fix t s1 assume a: "cachedTokens s = None \<and> getAuthTokens rt config s = (Inr t, s1)"
  then obtain s0 where s0: "authenticate rt config s = (Inr t, s0)"
    and s1: "s1 = s0\<lparr>cachedTokens := Some t\<rparr>"
    by (auto simp: getAuthTokens_miss split: prod.splits sum.splits)
  show "getAuthTokens rt config s1 = (Inr t, s1)"
    using s1 by (simp add: getAuthTokens_hit)
  show "\<exists>creq lreq msg sg.
          getChallenge_request rt config = Inr creq \<and>
          login_request rt config msg sg = Inr lreq \<and>
          requests s1 = requests s @ [creq, lreq]"
    using authenticate_success_requests [OF s0] s1 by simp
qed

theorem getAuthTokens_cache_hit_witness:
  "cachedTokens empty_state = None \<and>
   fst (getAuthTokens mock_rt mock_config empty_state) = Inr mock_tokens \<and>
   getAuthTokens mock_rt mock_config (snd (getAuthTokens mock_rt mock_config empty_state)) =
     (Inr mock_tokens, snd (getAuthTokens mock_rt mock_config empty_state)) \<and>
   map url (requests (snd (getAuthTokens mock_rt mock_config empty_state))) =
     [''https://api/challenge'', ''https://api/login'']"
proof -
  have g: "fst (getAuthTokens mock_rt mock_config empty_state) = Inr mock_tokens"
    by code_simp
  have r: "map url (requests (snd (getAuthTokens mock_rt mock_config empty_state))) =
     [''https://api/challenge'', ''https://api/login'']"
    by code_simp
  have e: "cachedTokens empty_state = None" by (simp add: empty_state_def)
  have p: "getAuthTokens mock_rt mock_config empty_state =
      (Inr mock_tokens, snd (getAuthTokens mock_rt mock_config empty_state))"
    using g by (metis prod.collapse)
  show ?thesis
    using e g r p getAuthTokens_cache_hit [of empty_state mock_rt mock_config]
    by blast
qed

text \<open>
  C4, as stated, fails: after a successful call has filled the cache, a call with a
  configuration without private key returns the cached pair.
\<close>

theorem getAuthTokens_ignores_missing_key_on_hit:
  "privateKey (mock_config\<lparr>privateKey := None\<rparr>) = None \<and>
   fst (getAuthTokens mock_rt (mock_config\<lparr>privateKey := None\<rparr>)
          (snd (getAuthTokens mock_rt mock_config empty_state))) = Inr mock_tokens"
  by code_simp

text \<open>
  C4, amended. With a private key that is absent (or empty), \<open>authenticate\<close> fails with
  the error of the class MissingPrivateKey and sends nothing; so does \<open>getAuthTokens\<close>
  on an empty cache; on a cache that holds a pair \<open>getAuthTokens\<close> returns the pair; in
  every case \<open>getAuthTokens\<close> sends no request.
\<close>

theorem getAuthTokens_missing_key:
  "\<not> truthy (privateKey config) \<Longrightarrow>
   authenticate rt config s = (Inl (new_Error ''Private key is required for authentication''), s) \<and>
   MissingPrivateKey (new_Error ''Private key is required for authentication'') \<and>
   (cachedTokens s = None \<longrightarrow>
      getAuthTokens rt config s =
        (Inl (new_Error ''Private key is required for authentication''), s)) \<and>
   (\<forall>t. cachedTokens s = Some t \<longrightarrow> getAuthTokens rt config s = (Inr t, s)) \<and>
   requests (snd (getAuthTokens rt config s)) = requests s"
  by (cases "cachedTokens s")
     (simp_all add: authenticate_def getAuthTokens_def MissingPrivateKey_def)

theorem getAuthTokens_missing_key_witness:
  "\<not> truthy (privateKey (mock_config\<lparr>privateKey := None\<rparr>)) \<and>
   cachedTokens empty_state = None \<and>
   getAuthTokens mock_rt (mock_config\<lparr>privateKey := None\<rparr>) empty_state =
     (Inl (new_Error ''Private key is required for authentication''), empty_state) \<and>
   requests (snd (getAuthTokens mock_rt (mock_config\<lparr>privateKey := None\<rparr>) empty_state)) = []"
proof -
  have h: "\<not> truthy (privateKey (mock_config\<lparr>privateKey := None\<rparr>))"
    by (simp add: truthy_def)
  have e: "cachedTokens empty_state = None" "requests empty_state = []"
    by (simp_all add: empty_state_def)
  show ?thesis
    using h e getAuthTokens_missing_key [OF h, of mock_rt empty_state] by simp
qed

section \<open>Properties of calls in flight together\<close>

text \<open>One task resumed three times is one call of \<open>getAuthTokens\<close>.\<close>

lemma run_single_task:
  "run rt [0, 0, 0] (s, [Start config]) =
     (snd (getAuthTokens rt config s), [Done (fst (getAuthTokens rt config s))])"
  by (auto simp: run_def step_def getAuthTokens_def authenticate_def getChallenge_def
        login_def split: option.splits sum.splits prod.splits)

lemma resume_Start:
  assumes "cachedTokens s = None" "truthy (privateKey config)"
    "getChallenge_request rt config = Inr creq"
  shows "\<exists>r w. resume rt (Start config) s =
           (AwaitChallenge config r, s\<lparr>world := w, requests := requests s @ [creq]\<rparr>)"
  using assms by (auto simp: do_fetch_def split: prod.splits)

lemma run_snoc: "run rt (xs @ [i]) st = step rt (run rt xs st) i"
  by (simp add: run_def)

lemma run_starts:
  assumes "cachedTokens s = None" "truthy (privateKey config)"
    "getChallenge_request rt config = Inr creq"
  shows "k \<le> N \<Longrightarrow>
     requests (fst (run rt [0..<k] (s, replicate N (Start config)))) = requests s @ replicate k creq \<and>
     cachedTokens (fst (run rt [0..<k] (s, replicate N (Start config)))) = None \<and>
     length (snd (run rt [0..<k] (s, replicate N (Start config)))) = N \<and>
     (\<forall>i<k. \<exists>r. snd (run rt [0..<k] (s, replicate N (Start config))) ! i = AwaitChallenge config r) \<and>
     (\<forall>i. k \<le> i \<and> i < N \<longrightarrow> snd (run rt [0..<k] (s, replicate N (Start config))) ! i = Start config)"
proof (induction k)
  case 0
  then show ?case by (simp add: run_def assms)
next
  case (Suc k)
  obtain sk ts where st: "run rt [0..<k] (s, replicate N (Start config)) = (sk, ts)"
    by (cases "run rt [0..<k] (s, replicate N (Start config))")
  from Suc st have ih: "requests sk = requests s @ replicate k creq" "cachedTokens sk = None"
    "length ts = N" "\<forall>i<k. \<exists>r. ts ! i = AwaitChallenge config r"
    "\<forall>i. k \<le> i \<and> i < N \<longrightarrow> ts ! i = Start config"
    by auto
  have k: "k < length ts" "ts ! k = Start config" using Suc.prems ih by auto
  obtain r w where rs: "resume rt (Start config) sk =
      (AwaitChallenge config r, sk\<lparr>world := w, requests := requests sk @ [creq]\<rparr>)"
    using resume_Start [OF ih(2) assms(2) assms(3)] by blast
  have nx: "run rt [0..<Suc k] (s, replicate N (Start config)) =
      (sk\<lparr>world := w, requests := requests sk @ [creq]\<rparr>, ts[k := AwaitChallenge config r])"
    using st k rs by (simp add: run_snoc step_def)
  show ?case
    unfolding nx using ih k
    by (auto simp: nth_list_update replicate_append_same less_Suc_eq)
qed


text \<open>A task that settles with a failure leaves the cache as it found it.\<close>

lemma resume_failure_keeps_cache:
  "resume rt t s = (Done (Inl e), s') \<Longrightarrow> cachedTokens s' = cachedTokens s"
  by (cases t) (auto simp: do_fetch_def split: option.splits sum.splits prod.splits if_splits)

text \<open>
  C1, as stated, fails. Two calls start on an empty cache; both find it empty and both
  send a challenge request; resumed in turn, both log in, and they settle with two
  different token pairs: four requests, not two.
\<close>

theorem concurrent_getAuthTokens_counterexample:
  "cachedTokens (fst (run mock_rt [0, 1] (empty_state, [Start mock_config, Start mock_config]))) = None \<and>
   snd (run mock_rt [0, 1] (empty_state, [Start mock_config, Start mock_config])) =
     [AwaitChallenge mock_config (Inr (mock_response\<lparr>resp_text := ''challenge-0''\<rparr>)),
      AwaitChallenge mock_config (Inr (mock_response\<lparr>resp_text := ''challenge-1''\<rparr>))] \<and>
   map url (requests (fst (run mock_rt [0, 1, 0, 1, 0, 1]
                             (empty_state, [Start mock_config, Start mock_config])))) =
     [''https://api/challenge'', ''https://api/challenge'', ''https://api/login'', ''https://api/login''] \<and>
   snd (run mock_rt [0, 1, 0, 1, 0, 1] (empty_state, [Start mock_config, Start mock_config])) =
     [Done (Inr \<lparr>accessToken = Some (JStr ''access-2''), refreshToken = Some (JStr ''refresh-2'')\<rparr>),
      Done (Inr \<lparr>accessToken = Some (JStr ''access-3''), refreshToken = Some (JStr ''refresh-3'')\<rparr>)]"
  by code_simp

text \<open>
  C1, amended. \<open>N\<close> calls with a private key that start on an empty cache before any of
  them resumes each send their own challenge request (\<open>N\<close> requests in all, the cache
  still empty, every call awaiting its own response). A call whose challenge and signing
  succeed then sends its own login request, whatever the cache holds by then, and a call
  whose login succeeds settles with the pair of its own login and overwrites the cache
  with it.
\<close>

theorem concurrent_getAuthTokens_each_authenticates:
  assumes "cachedTokens s = None" and "truthy (privateKey config)"
    and "getChallenge_request rt config = Inr creq"
  shows
    "requests (fst (run rt [0..<N] (s, replicate N (Start config)))) = requests s @ replicate N creq \<and>
     cachedTokens (fst (run rt [0..<N] (s, replicate N (Start config)))) = None \<and>
     (\<forall>i<N. \<exists>r. snd (run rt [0..<N] (s, replicate N (Start config))) ! i = AwaitChallenge config r) \<and>
     (\<forall>s' r msg sg lreq.
         getChallenge_result r = Inr msg \<and> signMessage rt (privateKey config) msg = Inr sg \<and>
         login_request rt config msg sg = Inr lreq \<longrightarrow>
         (\<exists>r' w. resume rt (AwaitChallenge config r) s' =
                    (AwaitLogin config r', s'\<lparr>world := w, requests := requests s' @ [lreq]\<rparr>))) \<and>
     (\<forall>s' r j t.
         login_result r = Inr j \<and> tokens_of j = Inr t \<longrightarrow>
         resume rt (AwaitLogin config r) s' = (Done (Inr t), s'\<lparr>cachedTokens := Some t\<rparr>))"
proof -
  have a: "requests (fst (run rt [0..<N] (s, replicate N (Start config)))) = requests s @ replicate N creq \<and>
     cachedTokens (fst (run rt [0..<N] (s, replicate N (Start config)))) = None \<and>
     (\<forall>i<N. \<exists>r. snd (run rt [0..<N] (s, replicate N (Start config))) ! i = AwaitChallenge config r)"
    using run_starts [OF assms, of N N] by simp
  have b: "\<exists>r' w. resume rt (AwaitChallenge config r) s' =
                    (AwaitLogin config r', s'\<lparr>world := w, requests := requests s' @ [lreq]\<rparr>)"
    if "getChallenge_result r = Inr msg \<and> signMessage rt (privateKey config) msg = Inr sg \<and>
         login_request rt config msg sg = Inr lreq" for s' :: "'a state" and r msg sg lreq
    using that by (auto simp: do_fetch_def split: prod.splits)
  have c: "resume rt (AwaitLogin config r) s' = (Done (Inr t), s'\<lparr>cachedTokens := Some t\<rparr>)"
    if "login_result r = Inr j \<and> tokens_of j = Inr t" for s' :: "'a state" and r j t
    using that by simp
  show ?thesis using a b c by blast
qed

theorem concurrent_getAuthTokens_each_authenticates_witness:
  "cachedTokens empty_state = None \<and> truthy (privateKey mock_config) \<and>
   getChallenge_request mock_rt mock_config =
     Inr \<lparr>http_method = ''GET'', url = ''https://api/challenge'',
          searchParams = [(''chainid'', ''985'')],
          headers = [(''Origin'', ''https://memo.io'')], body = NoBody\<rparr> \<and>
   requests (fst (run mock_rt [0..<2] (empty_state, replicate 2 (Start mock_config)))) =
     requests empty_state @
     replicate 2 \<lparr>http_method = ''GET'', url = ''https://api/challenge'',
          searchParams = [(''chainid'', ''985'')],
          headers = [(''Origin'', ''https://memo.io'')], body = NoBody\<rparr>"
proof -
  have h1: "cachedTokens empty_state = None" by (simp add: empty_state_def)
  have h2: "truthy (privateKey mock_config)" by (simp add: truthy_def mock_config_def)
  have h3: "getChallenge_request mock_rt mock_config =
     Inr \<lparr>http_method = ''GET'', url = ''https://api/challenge'',
          searchParams = [(''chainid'', ''985'')],
          headers = [(''Origin'', ''https://memo.io'')], body = NoBody\<rparr>"
    by code_simp
  show ?thesis
    using h1 h2 h3 concurrent_getAuthTokens_each_authenticates [OF h1 h2 h3, of 2]
    by blast
qed

section \<open>Properties of the base64 payload of the upload tool\<close>

lemma base64ToBytes_rejects:
  assumes "base64_decode (if take 1 (remove_data_url_prefix str) = ''m''
                          then remove_data_url_prefix str
                          else ''m'' @ remove_data_url_prefix str) = Inl e"
    and "Buffer_toString_base64 (Buffer_from_base64 (remove_data_url_prefix str)) \<noteq>
           remove_data_url_prefix str"
  shows "base64ToBytes str = Inl (new_Error ''Invalid base64 format'')"
  using assms by (simp add: base64ToBytes_def Let_def)

text \<open>
  C6, as stated, fails. The payload \<open>dGVzdA\<close> (the text \<open>test\<close>, its padding left out) fails
  the strict validation: decoded and encoded again it is \<open>dGVzdA==\<close>. The schema accepts
  it and the handler authenticates and uploads.
\<close>

theorem upload_handler_accepts_unpadded:
  "Buffer_toString_base64 (Buffer_from_base64 ''dGVzdA'') = ''dGVzdA=='' \<and>
   uploadInputSchema \<lparr>in_file = ''dGVzdA'', in_name = ''test.txt'', in_key = None, in_public = None\<rparr> \<and>
   map error_flag (fst (upload_handler mock_rt mock_config
       \<lparr>in_file = ''dGVzdA'', in_name = ''test.txt'', in_key = None, in_public = None\<rparr>
       empty_state)) = [False] \<and>
   map url (requests (snd (upload_handler mock_rt mock_config
       \<lparr>in_file = ''dGVzdA'', in_name = ''test.txt'', in_key = None, in_public = None\<rparr>
       empty_state))) = [''https://api/challenge'', ''https://api/login'', ''https://api/mefs/'']"
  by code_simp

text \<open>
  C6, amended. When the payload, its data-URL prefix removed, is rejected by the
  multiformats decoder and fails the strict validation (\<open>Buffer\<close> decoding and encoding
  again does not give it back), the handler returns the error envelope of
  \<open>Invalid base64 format\<close> and leaves the state as it was: no request is sent, neither
  for authentication nor for upload. The schema rejects such an input too.
\<close>

theorem upload_handler_rejects_invalid_encoding:
  assumes "base64_decode (if take 1 (remove_data_url_prefix (in_file input)) = ''m''
                          then remove_data_url_prefix (in_file input)
                          else ''m'' @ remove_data_url_prefix (in_file input)) = Inl e"
    and "Buffer_toString_base64 (Buffer_from_base64 (remove_data_url_prefix (in_file input))) \<noteq>
           remove_data_url_prefix (in_file input)"
  shows "upload_handler rt mefsConfig input s =
           (error_result (new_Error ''Invalid base64 format'') [], s) \<and>
         InvalidEncoding (new_Error ''Invalid base64 format'') \<and>
         \<not> uploadInputSchema input"
  using base64ToBytes_rejects [OF assms]
  by (simp add: upload_handler_def upload_try_def InvalidEncoding_def uploadInputSchema_def)

theorem upload_handler_rejects_invalid_encoding_witness:
  "base64_decode ''mnot-base64'' = Inl (ErrorObj ''SyntaxError'' ''Non-base64 character'' NoCause) \<and>
   Buffer_toString_base64 (Buffer_from_base64 ''not-base64'') \<noteq> ''not-base64'' \<and>
   upload_handler mock_rt mock_config
       \<lparr>in_file = ''not-base64'', in_name = ''test.txt'', in_key = None, in_public = None\<rparr>
       empty_state =
     (error_result (new_Error ''Invalid base64 format'') [], empty_state)"
proof -
  have r: "remove_data_url_prefix ''not-base64'' = ''not-base64''" by code_simp
  have h1: "base64_decode ''mnot-base64'' = Inl (ErrorObj ''SyntaxError'' ''Non-base64 character'' NoCause)"
    by code_simp
  have h2: "Buffer_toString_base64 (Buffer_from_base64 ''not-base64'') \<noteq> ''not-base64''"
    by code_simp
  show ?thesis
    using r h1 h2
      upload_handler_rejects_invalid_encoding [of
        "\<lparr>in_file = ''not-base64'', in_name = ''test.txt'', in_key = None, in_public = None\<rparr>"
        "ErrorObj ''SyntaxError'' ''Non-base64 character'' NoCause" mock_rt mock_config empty_state]
    by simp
qed

text \<open>
  The removal of the data-URL prefix: when \<open>;base64,\<close> first occurs at the end of
  \<open>mt;base64,\<close> and \<open>mt\<close> has no line break, what is left of
  \<open>data:mt;base64,rest\<close> is \<open>rest\<close>.
\<close>

lemma take_append_short: "n \<le> length ys \<Longrightarrow> take n (ys @ zs) = take n ys"
  by simp

lemma after_marker_first:
  "\<forall>i < length mt. take 8 (drop i (mt @ '';base64,'')) \<noteq> '';base64,'' \<Longrightarrow>
   CHR 0x0A \<notin> set mt \<Longrightarrow> CHR 0x0D \<notin> set mt \<Longrightarrow>
   after_marker (mt @ '';base64,'' @ rest) = Some rest"
proof (induction mt)
  case Nil
  then show ?case by simp
next
  case (Cons c cs)
  have "take 8 (drop 0 ((c # cs) @ '';base64,'')) \<noteq> '';base64,''"
    using Cons.prems(1) by (metis length_greater_0_conv list.distinct(1))
  moreover have "take 8 (((c # cs) @ '';base64,'') @ rest) = take 8 ((c # cs) @ '';base64,'')"
    by (rule take_append_short) simp
  ultimately have n: "take 8 ((c # cs) @ '';base64,'' @ rest) \<noteq> '';base64,''"
    by (simp only: append_assoc drop_0 not_False_eq_True)
  have "\<forall>i < length cs. take 8 (drop i (cs @ '';base64,'')) \<noteq> '';base64,''"
  proof (intro allI impI)
    fix i assume "i < length cs"
    then have "take 8 (drop (Suc i) ((c # cs) @ '';base64,'')) \<noteq> '';base64,''"
      using Cons.prems(1) by (metis Suc_less_eq length_Cons)
    then show "take 8 (drop i (cs @ '';base64,'')) \<noteq> '';base64,''" by simp
  qed
  then have "after_marker (cs @ '';base64,'' @ rest) = Some rest"
    using Cons by simp
  moreover have "c \<noteq> CHR 0x0A" "c \<noteq> CHR 0x0D" using Cons.prems by auto
  ultimately show ?case using n by (simp del: take_Cons_numeral)
qed

lemma remove_data_url_prefix_strips:
  "\<forall>i < length mt. take 8 (drop i (mt @ '';base64,'')) \<noteq> '';base64,'' \<Longrightarrow>
   CHR 0x0A \<notin> set mt \<Longrightarrow> CHR 0x0D \<notin> set mt \<Longrightarrow>
   remove_data_url_prefix (''data:'' @ mt @ '';base64,'' @ rest) = rest"
  using after_marker_first [of mt rest] by (simp add: remove_data_url_prefix_def)

text \<open>
  C10. The bytes 98 00 00 have the base64 text \<open>mAAA\<close>. Wrapped in a data URL, the
  prefix is removed and \<open>mAAA\<close> is left; its leading \<open>m\<close> is then taken for the multibase
  prefix, \<open>AAA\<close> is decoded, and the upload tool sends the two bytes 00 00.
\<close>

theorem base64ToBytes_data_url_leading_m:
  "remove_data_url_prefix ''data:application/octet-stream;base64,mAAA'' = ''mAAA'' \<and>
   Buffer_from_base64 ''mAAA'' = [0x98, 0, 0] \<and>
   Buffer_toString_base64 [0x98, 0, 0] = ''mAAA'' \<and>
   base64ToBytes ''data:application/octet-stream;base64,mAAA'' = Inr [0, 0] \<and>
   map body (requests (snd (upload_handler mock_rt mock_config
       \<lparr>in_file = ''data:application/octet-stream;base64,mAAA'', in_name = ''a.bin'',
        in_key = None, in_public = None\<rparr> empty_state))) =
     [NoBody,
      JsonBody (stringify (JObj [(''message'', JStr ''challenge-0''),
                                 (''signature'', JStr ''0xsigned:challenge-0'')])),
      FormBody [(''file'', FormFile [0, 0] ''a.bin'' ''application/octet-stream'')]]"
  by code_simp

section \<open>Properties of client.ts\<close>

text \<open>
  C7, as stated, fails. With \<open>public: false\<close> and \<open>key: ''\<close> both options are present,
  and the form has the field \<open>file\<close> alone.
\<close>

theorem upload_form_public_false:
  "opt_public \<lparr>opt_key = Some [], opt_public = Some False, opt_user = None\<rparr> = Some False \<and>
   opt_key \<lparr>opt_key = Some [], opt_public = Some False, opt_user = None\<rparr> = Some [] \<and>
   uploadFile_request mock_rt \<lparr>api_apiBaseUrl = ''https://api'', api_accessToken = Some (JStr ''tok'')\<rparr>
       [116, 101, 115, 116] ''test.txt''
       \<lparr>opt_key = Some [], opt_public = Some False, opt_user = None\<rparr> =
     Inr \<lparr>http_method = ''POST'', url = ''https://api/mefs/'', searchParams = [],
          headers = [(''Authorization'', ''Bearer tok'')],
          body = FormBody [(''file'', FormFile [116, 101, 115, 116] ''test.txt''
                                        ''application/octet-stream'')]\<rparr>"
  by code_simp

lemma upload_form_fields:
  "map_of (upload_form file fname options) ''file'' =
     Some (FormFile file fname ''application/octet-stream'')"
  "map_of (upload_form file fname options) ''key'' =
     (if truthy (opt_key options) then Some (FormText (the (opt_key options))) else None)"
  "map_of (upload_form file fname options) ''public'' =
     (if opt_public options = Some True then Some (FormText ''true'') else None)"
  "map_of (upload_form file fname options) ''user'' =
     (if truthy (opt_user options) then Some (FormText (the (opt_user options))) else None)"
  "distinct (map fst (upload_form file fname options))"
  "set (map fst (upload_form file fname options)) \<subseteq> {''file'', ''key'', ''public'', ''user''}"
  by (auto simp: upload_form_def)

text \<open>
  C7, amended. When the URL is valid, \<open>uploadFile\<close> sends one POST request with the header
  \<open>Authorization: Bearer\<close> and the access token, and a form with the file bytes, under
  the given file name, in the field \<open>file\<close>; the form has the field \<open>key\<close> exactly when
  the option is a non-empty string, \<open>public\<close> (with the value \<open>true\<close>) exactly when the
  option is \<open>true\<close>, \<open>user\<close> exactly when the option is a non-empty string, each at most
  once and no other field. On a status outside 200 to 299 it fails with the error that
  carries status, status text and body; otherwise it returns the decoded JSON response,
  the object with the identifier \<open>Mid\<close>.
\<close>

theorem uploadFile_request_and_result:
  assumes "new_URL rt (api_apiBaseUrl config @ ''/mefs/'') = Inr href"
  shows
    "(\<exists>form.
        uploadFile_request rt config file fname options =
          Inr \<lparr>http_method = ''POST'', url = href, searchParams = [],
               headers = [(''Authorization'', ''Bearer '' @ template_String (api_accessToken config))],
               body = FormBody form\<rparr> \<and>
        map_of form ''file'' = Some (FormFile file fname ''application/octet-stream'') \<and>
        map_of form ''key'' =
          (if truthy (opt_key options) then Some (FormText (the (opt_key options))) else None) \<and>
        map_of form ''public'' =
          (if opt_public options = Some True then Some (FormText ''true'') else None) \<and>
        map_of form ''user'' =
          (if truthy (opt_user options) then Some (FormText (the (opt_user options))) else None) \<and>
        distinct (map fst form) \<and>
        set (map fst form) \<subseteq> {''file'', ''key'', ''public'', ''user''} \<and>
        uploadFile rt config file fname options s =
          (uploadFile_result
             (fst (fetch rt (world s)
                \<lparr>http_method = ''POST'', url = href, searchParams = [],
                 headers = [(''Authorization'', ''Bearer '' @ template_String (api_accessToken config))],
                 body = FormBody form\<rparr>)),
           s\<lparr>world := snd (fetch rt (world s)
                \<lparr>http_method = ''POST'', url = href, searchParams = [],
                 headers = [(''Authorization'', ''Bearer '' @ template_String (api_accessToken config))],
                 body = FormBody form\<rparr>),
             requests := requests s @
               [\<lparr>http_method = ''POST'', url = href, searchParams = [],
                 headers = [(''Authorization'', ''Bearer '' @ template_String (api_accessToken config))],
                 body = FormBody form\<rparr>]\<rparr>)) \<and>
     (\<forall>tok. api_accessToken config = Some (JStr tok) \<longrightarrow>
        template_String (api_accessToken config) = tok) \<and>
     (\<forall>response. \<not> ok response \<longrightarrow>
        uploadFile_result (Inr response) =
          Inl (new_Error (''Failed to upload file: '' @ show_nat (status response) @ '' '' @
                          statusText response @ '' - '' @ resp_text response))) \<and>
     (\<forall>response result. ok response \<and> resp_json response = Inr result \<longrightarrow>
        uploadFile_result (Inr response) = Inr result)"
proof -
  let ?req = "\<lparr>http_method = ''POST'', url = href, searchParams = [],
               headers = [(''Authorization'', ''Bearer '' @ template_String (api_accessToken config))],
               body = FormBody (upload_form file fname options)\<rparr>"
  have r: "uploadFile_request rt config file fname options = Inr ?req"
    using assms by (simp add: uploadFile_request_def bearer_def)
  have u: "uploadFile rt config file fname options s =
      (uploadFile_result (fst (fetch rt (world s) ?req)),
       s\<lparr>world := snd (fetch rt (world s) ?req), requests := requests s @ [?req]\<rparr>)"
    unfolding uploadFile_def r by (simp add: do_fetch_def split: prod.splits)
  have a: "\<exists>form.
        uploadFile_request rt config file fname options =
          Inr \<lparr>http_method = ''POST'', url = href, searchParams = [],
               headers = [(''Authorization'', ''Bearer '' @ template_String (api_accessToken config))],
               body = FormBody form\<rparr> \<and>
        map_of form ''file'' = Some (FormFile file fname ''application/octet-stream'') \<and>
        map_of form ''key'' =
          (if truthy (opt_key options) then Some (FormText (the (opt_key options))) else None) \<and>
        map_of form ''public'' =
          (if opt_public options = Some True then Some (FormText ''true'') else None) \<and>
        map_of form ''user'' =
          (if truthy (opt_user options) then Some (FormText (the (opt_user options))) else None) \<and>
        distinct (map fst form) \<and>
        set (map fst form) \<subseteq> {''file'', ''key'', ''public'', ''user''} \<and>
        uploadFile rt config file fname options s =
          (uploadFile_result
             (fst (fetch rt (world s)
                \<lparr>http_method = ''POST'', url = href, searchParams = [],
                 headers = [(''Authorization'', ''Bearer '' @ template_String (api_accessToken config))],
                 body = FormBody form\<rparr>)),
           s\<lparr>world := snd (fetch rt (world s)
                \<lparr>http_method = ''POST'', url = href, searchParams = [],
                 headers = [(''Authorization'', ''Bearer '' @ template_String (api_accessToken config))],
                 body = FormBody form\<rparr>),
             requests := requests s @
               [\<lparr>http_method = ''POST'', url = href, searchParams = [],
                 headers = [(''Authorization'', ''Bearer '' @ template_String (api_accessToken config))],
                 body = FormBody form\<rparr>]\<rparr>)"
    apply (rule exI [of _ "upload_form file fname options"])
    using r u upload_form_fields by simp
  have b: "\<forall>tok. api_accessToken config = Some (JStr tok) \<longrightarrow>
        template_String (api_accessToken config) = tok"
    by (simp add: template_String_def)
  have c: "\<forall>response. \<not> ok response \<longrightarrow>
        uploadFile_result (Inr response) =
          Inl (new_Error (''Failed to upload file: '' @ show_nat (status response) @ '' '' @
                          statusText response @ '' - '' @ resp_text response))"
    by (simp add: uploadFile_result_def failed_message_def)
  have d: "\<forall>response result. ok response \<and> resp_json response = Inr result \<longrightarrow>
        uploadFile_result (Inr response) = Inr result"
    by (simp add: uploadFile_result_def)
  show ?thesis using a b c d by blast
qed


theorem uploadFile_request_and_result_witness:
  "new_URL mock_rt (api_apiBaseUrl \<lparr>api_apiBaseUrl = ''https://api'', api_accessToken = Some (JStr ''tok'')\<rparr>
                    @ ''/mefs/'') = Inr ''https://api/mefs/'' \<and>
   fst (uploadFile mock_rt \<lparr>api_apiBaseUrl = ''https://api'', api_accessToken = Some (JStr ''tok'')\<rparr>
          [116, 101, 115, 116] ''test.txt''
          \<lparr>opt_key = Some ''k'', opt_public = Some True, opt_user = None\<rparr> empty_state) =
     Inr (JObj [(''Mid'', JStr ''bafy-test'')]) \<and>
   map body (requests (snd (uploadFile mock_rt
          \<lparr>api_apiBaseUrl = ''https://api'', api_accessToken = Some (JStr ''tok'')\<rparr>
          [116, 101, 115, 116] ''test.txt''
          \<lparr>opt_key = Some ''k'', opt_public = Some True, opt_user = None\<rparr> empty_state))) =
     [FormBody [(''file'', FormFile [116, 101, 115, 116] ''test.txt'' ''application/octet-stream''),
                (''key'', FormText ''k''), (''public'', FormText ''true'')]]"
proof -
  have h: "new_URL mock_rt (api_apiBaseUrl \<lparr>api_apiBaseUrl = ''https://api'', api_accessToken = Some (JStr ''tok'')\<rparr>
                    @ ''/mefs/'') = Inr ''https://api/mefs/''"
    by (simp add: mock_rt_def)
  have v: "fst (uploadFile mock_rt \<lparr>api_apiBaseUrl = ''https://api'', api_accessToken = Some (JStr ''tok'')\<rparr>
          [116, 101, 115, 116] ''test.txt''
          \<lparr>opt_key = Some ''k'', opt_public = Some True, opt_user = None\<rparr> empty_state) =
     Inr (JObj [(''Mid'', JStr ''bafy-test'')])"
    by code_simp
  have w: "map body (requests (snd (uploadFile mock_rt
          \<lparr>api_apiBaseUrl = ''https://api'', api_accessToken = Some (JStr ''tok'')\<rparr>
          [116, 101, 115, 116] ''test.txt''
          \<lparr>opt_key = Some ''k'', opt_public = Some True, opt_user = None\<rparr> empty_state))) =
     [FormBody [(''file'', FormFile [116, 101, 115, 116] ''test.txt'' ''application/octet-stream''),
                (''key'', FormText ''k''), (''public'', FormText ''true'')]]"
    by code_simp
  show ?thesis
    using h v w uploadFile_request_and_result [OF h, of "[116, 101, 115, 116]" "''test.txt''"
        "\<lparr>opt_key = Some ''k'', opt_public = Some True, opt_user = None\<rparr>" empty_state]
    by blast
qed

subsection \<open>The file name of a download\<close>







text \<open>
  The search of \<open>filename_match\<close> against the meaning of the pattern: it finds the group
  of the match at the least position, and finds nothing only when the pattern matches
  at no position.
\<close>

lemma takeWhile_to_quote:
  "CHR 0x22 \<notin> set f \<Longrightarrow> post = [] \<or> hd post = CHR 0x22 \<Longrightarrow>
   takeWhile (\<lambda>c. c \<noteq> CHR 0x22) (f @ post) = f"
  by (induction f) (auto simp: takeWhile_eq_Nil_iff)

lemma capture_filename_iff:
  "capture_filename s = Some f \<longleftrightarrow>
     (\<exists>q post. s = q @ f @ post \<and> (q = [] \<or> q = [CHR 0x22]) \<and> f \<noteq> [] \<and>
        CHR 0x22 \<notin> set f \<and> (post = [] \<or> hd post = CHR 0x22))"
proof
  assume a: "capture_filename s = Some f"
  define s' where "s' = (case s of [] \<Rightarrow> [] | c # cs \<Rightarrow> if c = CHR 0x22 then cs else s)"
  have f: "f = takeWhile (\<lambda>c. c \<noteq> CHR 0x22) s'" "f \<noteq> []"
    using a by (auto simp: capture_filename_def s'_def Let_def split: if_splits)
  define post where "post = dropWhile (\<lambda>c. c \<noteq> CHR 0x22) s'"
  have s': "s' = f @ post" by (simp add: f post_def)
  have p: "post = [] \<or> hd post = CHR 0x22"
    unfolding post_def using hd_dropWhile [of "\<lambda>c. c \<noteq> CHR 0x22" s'] by blast
  have nq: "CHR 0x22 \<notin> set f"
    unfolding f(1) using set_takeWhileD [of "CHR 0x22" "\<lambda>c. c \<noteq> CHR 0x22" s'] by blast
  have "s = s' \<or> s = [CHR 0x22] @ s'"
    by (auto simp: s'_def split: list.splits)
  then show "\<exists>q post. s = q @ f @ post \<and> (q = [] \<or> q = [CHR 0x22]) \<and> f \<noteq> [] \<and>
        CHR 0x22 \<notin> set f \<and> (post = [] \<or> hd post = CHR 0x22)"
    using s' p nq f(2) by (metis append_Nil)
next
  assume "\<exists>q post. s = q @ f @ post \<and> (q = [] \<or> q = [CHR 0x22]) \<and> f \<noteq> [] \<and>
        CHR 0x22 \<notin> set f \<and> (post = [] \<or> hd post = CHR 0x22)"
  then obtain q post where s: "s = q @ f @ post" and q: "q = [] \<or> q = [CHR 0x22]"
    and f: "f \<noteq> []" "CHR 0x22 \<notin> set f" and p: "post = [] \<or> hd post = CHR 0x22"
    by blast
  have t: "takeWhile (\<lambda>c. c \<noteq> CHR 0x22) (f @ post) = f"
    using f(2) p by (rule takeWhile_to_quote)
  obtain a fs where fa: "f = a # fs" "a \<noteq> CHR 0x22"
    using f by (cases f) auto
  from q show "capture_filename s = Some f"
  proof
    assume "q = []"
    then have "s = a # (fs @ post)" using s fa by simp
    then show ?thesis using t fa by (simp add: capture_filename_def)
  next
    assume "q = [CHR 0x22]"
    then have "s = CHR 0x22 # (f @ post)" using s by simp
    then show ?thesis using t f(1) by (simp add: capture_filename_def)
  qed
qed

lemma pattern_matches_at_iff:
  "pattern_matches_at cd i f \<longleftrightarrow>
     take 9 (drop i cd) = ''filename='' \<and> capture_filename (drop 9 (drop i cd)) = Some f"
proof
  assume "pattern_matches_at cd i f"
  then obtain pre q post where cd: "cd = pre @ ''filename='' @ q @ f @ post" and l: "length pre = i"
    and r: "(q = [] \<or> q = [CHR 0x22]) \<and> f \<noteq> [] \<and> CHR 0x22 \<notin> set f \<and>
            (post = [] \<or> hd post = CHR 0x22)"
    unfolding pattern_matches_at_def by blast
  have d: "drop i cd = ''filename='' @ (q @ f @ post)" using cd l by simp
  have "capture_filename (q @ f @ post) = Some f"
    using r capture_filename_iff [of "q @ f @ post" f] by blast
  then show "take 9 (drop i cd) = ''filename='' \<and> capture_filename (drop 9 (drop i cd)) = Some f"
    using d by simp
next
  assume a: "take 9 (drop i cd) = ''filename='' \<and> capture_filename (drop 9 (drop i cd)) = Some f"
  then have "drop i cd \<noteq> []" by auto
  then have l: "length (take i cd) = i" by simp
  have "drop i cd = take 9 (drop i cd) @ drop 9 (drop i cd)"
    by (rule append_take_drop_id [symmetric])
  then have d: "drop i cd = ''filename='' @ drop 9 (drop i cd)"
    using a by metis
  obtain q post where c: "drop 9 (drop i cd) = q @ f @ post" "(q = [] \<or> q = [CHR 0x22])" "f \<noteq> []"
        "CHR 0x22 \<notin> set f" "(post = [] \<or> hd post = CHR 0x22)"
    using a capture_filename_iff [of "drop 9 (drop i cd)" f] by blast
  have "cd = take i cd @ drop i cd" by simp
  then have "cd = take i cd @ ''filename='' @ q @ f @ post" using d c(1) by metis
  then show "pattern_matches_at cd i f"
    unfolding pattern_matches_at_def using l c by blast
qed

lemma pattern_matches_at_0:
  "pattern_matches_at (c # cs) 0 f \<longleftrightarrow>
     take 9 (c # cs) = ''filename='' \<and> capture_filename (drop 9 (c # cs)) = Some f"
  by (simp only: pattern_matches_at_iff drop_0)

lemma pattern_matches_at_Suc:
  "pattern_matches_at (c # cs) (Suc k) f \<longleftrightarrow> pattern_matches_at cs k f"
  by (simp only: pattern_matches_at_iff drop_Suc_Cons)

lemma filename_match_here:
  "pattern_matches_at (c # cs) 0 g \<Longrightarrow> filename_match (c # cs) = Some g"
  by (simp del: take_Cons_numeral drop_Cons_numeral add: pattern_matches_at_0)

lemma filename_match_later:
  assumes "\<forall>g. \<not> pattern_matches_at (c # cs) 0 g"
  shows "filename_match (c # cs) = filename_match cs"
proof (cases "take 9 (c # cs) = ''filename=''")
  case False
  then show ?thesis by (simp del: take_Cons_numeral drop_Cons_numeral)
next
  case True
  then have "capture_filename (drop 9 (c # cs)) = None"
    using assms by (cases "capture_filename (drop 9 (c # cs))") (auto simp only: pattern_matches_at_0)
  then show ?thesis using True by (simp del: take_Cons_numeral drop_Cons_numeral)
qed

lemma filename_match_None:
  "filename_match cd = None \<Longrightarrow> \<not> pattern_matches_at cd i f"
proof (induction cd arbitrary: i)
  case Nil
  then show ?case by (simp add: pattern_matches_at_iff)
next
  case (Cons c cs)
  have z: "\<forall>g. \<not> pattern_matches_at (c # cs) 0 g"
    using Cons.prems filename_match_here [of c cs] by fastforce
  then have n: "filename_match cs = None"
    using Cons.prems filename_match_later [of c cs] by simp
  show ?case
  proof (cases i)
    case 0
    then show ?thesis using z by blast
  next
    case (Suc k)
    have "\<not> pattern_matches_at cs k f" using Cons.IH [OF n] .
    then show ?thesis using Suc by (simp add: pattern_matches_at_Suc)
  qed
qed


lemma filename_match_Some:
  "filename_match cd = Some f \<Longrightarrow>
   \<exists>i. pattern_matches_at cd i f \<and> (\<forall>j<i. \<forall>g. \<not> pattern_matches_at cd j g)"
proof (induction cd)
  case Nil
  then show ?case by simp
next
  case (Cons c cs)
  show ?case
  proof (cases "\<exists>g. pattern_matches_at (c # cs) 0 g")
    case True
    then obtain g where g: "pattern_matches_at (c # cs) 0 g" by blast
    then have "filename_match (c # cs) = Some g" by (rule filename_match_here)
    then have "g = f" using Cons.prems by simp
    then show ?thesis using g by auto
  next
    case False
    then have "filename_match cs = Some f"
      using Cons.prems filename_match_later [of c cs] by simp
    then obtain i where i: "pattern_matches_at cs i f" "\<forall>j<i. \<forall>g. \<not> pattern_matches_at cs j g"
      using Cons.IH by blast
    have "\<forall>j<Suc i. \<forall>g. \<not> pattern_matches_at (c # cs) j g"
    proof (intro allI impI)
      fix j g assume "j < Suc i"
      then show "\<not> pattern_matches_at (c # cs) j g"
        using False i(2) by (cases j) (auto simp add: pattern_matches_at_Suc)
    qed
    moreover have "pattern_matches_at (c # cs) (Suc i) f"
      using i(1) by (simp add: pattern_matches_at_Suc)
    ultimately show ?thesis by blast
  qed
qed



text \<open>Every header is in one of the two cases, and the group at a position is unique.\<close>

lemma pattern_match_cases:
  "(\<forall>i f. \<not> pattern_matches_at cd i f) \<or>
   (\<exists>i f. pattern_matches_at cd i f \<and> (\<forall>j<i. \<forall>g. \<not> pattern_matches_at cd j g))"
proof (cases "filename_match cd")
  case None
  then show ?thesis using filename_match_None by blast
next
  case (Some f)
  then show ?thesis using filename_match_Some by blast
qed




section \<open>Properties of the tool handlers\<close>

text \<open>
  The JSON object of the error envelope: \<open>name\<close>, \<open>message\<close> and \<open>cause\<close>, the last one
  left out for an \<open>Error\<close> whose cause has no message.
\<close>

lemma error_payload_Error:
  "object_literal (error_payload (ErrorObj n m NoCause)) =
     JObj [(''name'', JStr n), (''message'', JStr m), (''cause'', JNull)]"
  "object_literal (error_payload (ErrorObj n m (Cause (Some j)))) =
     JObj [(''name'', JStr n), (''message'', JStr m), (''cause'', j)]"
  "object_literal (error_payload (ErrorObj n m (Cause None))) =
     JObj [(''name'', JStr n), (''message'', JStr m)]"
  "object_literal (error_payload (NonError v)) =
     JObj [(''name'', JStr ''Error''), (''message'', JStr ''Unknown error''), (''cause'', JNull)]"
  by (simp_all add: object_literal_def)

text \<open>
  What each handler returns, stage by stage: the envelope of the value thrown by the
  decoding of the payload, by \<open>getAuthTokens\<close>, by the transfer or by the reading of the
  response, and the success payload when none of them throws.
\<close>

lemma upload_handler_stages:
  "(\<forall>e. base64ToBytes (in_file input) = Inl e \<longrightarrow>
      upload_handler rt mefsConfig input s = (error_result e [], s)) \<and>
   (\<forall>bytes e s1. base64ToBytes (in_file input) = Inr bytes \<and>
      getAuthTokens rt mefsConfig s = (Inl e, s1) \<longrightarrow>
      upload_handler rt mefsConfig input s = (error_result e [], s1)) \<and>
   (\<forall>bytes tokens s1 e s2. base64ToBytes (in_file input) = Inr bytes \<and>
      getAuthTokens rt mefsConfig s = (Inr tokens, s1) \<and>
      uploadFile rt \<lparr>api_apiBaseUrl = apiBaseUrl mefsConfig, api_accessToken = accessToken tokens\<rparr>
        bytes (in_name input)
        \<lparr>opt_key = in_key input, opt_public = in_public input, opt_user = None\<rparr> s1 = (Inl e, s2) \<longrightarrow>
      upload_handler rt mefsConfig input s = (error_result e [], s2)) \<and>
   (\<forall>bytes tokens s1 result s2 e. base64ToBytes (in_file input) = Inr bytes \<and>
      getAuthTokens rt mefsConfig s = (Inr tokens, s1) \<and>
      uploadFile rt \<lparr>api_apiBaseUrl = apiBaseUrl mefsConfig, api_accessToken = accessToken tokens\<rparr>
        bytes (in_name input)
        \<lparr>opt_key = in_key input, opt_public = in_public input, opt_user = None\<rparr> s1 = (Inr result, s2) \<and>
      get_prop result ''Mid'' = Inl e \<longrightarrow>
      upload_handler rt mefsConfig input s = (error_result e [], s2)) \<and>
   (\<forall>bytes tokens s1 result s2 mid. base64ToBytes (in_file input) = Inr bytes \<and>
      getAuthTokens rt mefsConfig s = (Inr tokens, s1) \<and>
      uploadFile rt \<lparr>api_apiBaseUrl = apiBaseUrl mefsConfig, api_accessToken = accessToken tokens\<rparr>
        bytes (in_name input)
        \<lparr>opt_key = in_key input, opt_public = in_public input, opt_user = None\<rparr> s1 = (Inr result, s2) \<and>
      get_prop result ''Mid'' = Inr mid \<longrightarrow>
      upload_handler rt mefsConfig input s =
        ([\<lparr>error_flag = False, item_type = ''text'',
           item_text = stringify (object_literal
             [(''cid'', mid), (''filename'', Some (JStr (in_name input))),
              (''size'', Some (JNum (int (length bytes))))])\<rparr>], s2))"
  by (simp add: upload_handler_def upload_try_def success_result_def)

lemma retrieve_handler_stages:
  "(\<forall>e s1. getAuthTokens rt mefsConfig s = (Inl e, s1) \<longrightarrow>
      retrieve_handler rt mefsConfig input s =
        (error_result e [(''apiBaseUrl'', Some (JStr (apiBaseUrl mefsConfig)))], s1)) \<and>
   (\<forall>tokens s1 e s2. getAuthTokens rt mefsConfig s = (Inr tokens, s1) \<and>
      downloadFile rt \<lparr>api_apiBaseUrl = apiBaseUrl mefsConfig, api_accessToken = accessToken tokens\<rparr>
        (in_cid input) (in_dkey input) s1 = (Inl e, s2) \<longrightarrow>
      retrieve_handler rt mefsConfig input s =
        (error_result e [(''apiBaseUrl'', Some (JStr (apiBaseUrl mefsConfig)))], s2)) \<and>
   (\<forall>tokens s1 result s2. getAuthTokens rt mefsConfig s = (Inr tokens, s1) \<and>
      downloadFile rt \<lparr>api_apiBaseUrl = apiBaseUrl mefsConfig, api_accessToken = accessToken tokens\<rparr>
        (in_cid input) (in_dkey input) s1 = (Inr result, s2) \<longrightarrow>
      retrieve_handler rt mefsConfig input s =
        ([\<lparr>error_flag = False, item_type = ''text'',
           item_text = stringify (object_literal
             [(''cid'', Some (JStr (in_cid input))),
              (''filename'', Some (JStr (filename result))),
              (''file'', Some (JStr (bytesToBase64 (data result)))),
              (''size'', Some (JNum (int (length (data result))))),
              (''contentType'', map_option JStr (contentType result))])\<rparr>], s2))"
  by (simp add: retrieve_handler_def retrieve_try_def success_result_def)

text \<open>
  C9. The handler of the upload tool does not check its input against
  \<open>uploadInputSchema\<close>: the input with an empty \<open>file\<close>, which the schema rejects, is
  decoded to no bytes, authenticated and uploaded, and the result has no error flag,
  where the claim and the repository's test \<open>should handle Zod validation errors\<close> expect
  the error envelope.
\<close>

theorem upload_handler_skips_validation:
  "\<not> uploadInputSchema \<lparr>in_file = [], in_name = ''test.txt'', in_key = None, in_public = None\<rparr> \<and>
   base64ToBytes [] = Inr [] \<and>
   fst (upload_handler mock_rt mock_config
          \<lparr>in_file = [], in_name = ''test.txt'', in_key = None, in_public = None\<rparr> empty_state) =
     [\<lparr>error_flag = False, item_type = ''text'',
       item_text = stringify (JObj [(''cid'', JStr ''bafy-test''),
                                    (''filename'', JStr ''test.txt''),
                                    (''size'', JNum 0)])\<rparr>] \<and>
   map url (requests (snd (upload_handler mock_rt mock_config
          \<lparr>in_file = [], in_name = ''test.txt'', in_key = None, in_public = None\<rparr> empty_state))) =
     [''https://api/challenge'', ''https://api/login'', ''https://api/mefs/'']"
  by code_simp

end
